theory Spec2Isabelle
  imports Main "HOL-Library.Sublist"
begin

section \<open>The xenopus server: command construction and outcome mapping\<close>

text \<open>
  The program is \<^verbatim>\<open>src/server.py\<close>: two tools (\<^verbatim>\<open>domain_crawl\<close>,
  \<^verbatim>\<open>post_crawl_export\<close>) that build an argument vector for the external crawler, run it
  with \<^verbatim>\<open>subprocess.run(..., check=True, capture_output=True, text=True)\<close> and map the
  outcome to a dictionary, and two resources (\<^verbatim>\<open>export_header_reference\<close>,
  \<^verbatim>\<open>database_id_list\<close>).

  Python strings are \<^typ>\<open>string\<close>, the bytes of their encoding, so every token here is
  text that can be encoded; a list of strings is a \<^typ>\<open>string list\<close> (the identifier
  lists are taken to hold strings, as the spec's data model says); a dictionary
  literal is an association list in the order it is written, read with \<^const>\<open>map_of\<close>.
  An operation returns the events it caused, in order, and either the exception that
  leaves it (\<open>Inl\<close>) or the value it returns (\<open>Inr\<close>). The home directory is a
  field of the environment.
\<close>

subsection \<open>Exceptions, the operating system, events\<close>

datatype py_exception =
    FileNotFoundError
  | CalledProcessError int "string list" string string
  | ValueError
  | UnicodeDecodeError
  | OtherException string

datatype completed_process =
  CompletedProcess (args: "string list") (returncode: int) (stdout: string) (stderr: string)

text \<open>
  What the operating system does when a child is spawned with an argument vector. Either
  the child runs and exits with a code; the two captured streams are given as
  \<^verbatim>\<open>text=True\<close> decodes them, \<open>None\<close> for bytes that cannot be decoded. Or the spawn is
  attempted and the executable is not found on the search path. Or the spawn fails for
  another reason (no permission, no resources).
\<close>

datatype proc_result =
    Exited int "string option" "string option"
  | ExecutableMissing
  | SpawnFailed string

record os_env =
  env_run :: "string list \<Rightarrow> proc_result"
  env_makedirs :: "string \<Rightarrow> py_exception option"
  env_listdir :: "string \<Rightarrow> py_exception + string list"
  env_home :: string

datatype log_level = INFO | ERROR

text \<open>
  \<open>Run command p\<close>: the spawn of a child with the argument vector \<open>command\<close> was
  attempted, with the result \<open>p\<close>.
\<close>

datatype event =
    Log log_level string
  | Makedirs string
  | Run "string list" proc_result
  | Listdir string

type_synonym py_dict = "(string \<times> string) list"

type_synonym 'a outcome = "event list \<times> (py_exception + 'a)"

subsection \<open>Library functions of Python the source calls\<close>

text \<open>\<^verbatim>\<open>str(n)\<close> for an integer: decimal digits, a minus sign for a negative number.\<close>

fun str_nat :: "nat \<Rightarrow> string" where
  "str_nat n =
     (if n < 10 then [''0123456789'' ! n]
      else str_nat (n div 10) @ [''0123456789'' ! (n mod 10)])"

declare str_nat.simps [simp del]

definition str_int :: "int \<Rightarrow> string" where
  "str_int i = (if i < 0 then ''-'' @ str_nat (nat (- i)) else str_nat (nat i))"

text \<open>\<^verbatim>\<open>sep.join(xs)\<close>.\<close>

fun str_join :: "string \<Rightarrow> string list \<Rightarrow> string" where
  "str_join sep [] = []"
| "str_join sep [x] = x"
| "str_join sep (x # y # ys) = x @ sep @ str_join sep (y # ys)"

text \<open>
  \<^verbatim>\<open>s.rfind(c)\<close> for a one-character \<open>c\<close>: the highest index of \<open>c\<close> in \<open>s\<close>, or \<open>-1\<close>.
\<close>

fun rfind :: "string \<Rightarrow> char \<Rightarrow> int" where
  "rfind [] c = - 1"
| "rfind (x # xs) c =
     (let r = rfind xs c in if 0 \<le> r then r + 1 else if x = c then 0 else - 1)"

text \<open>\<^verbatim>\<open>s.rstrip(c)\<close> for a one-character \<open>c\<close>.\<close>

definition rstrip :: "string \<Rightarrow> char \<Rightarrow> string" where
  "rstrip s c = rev (dropWhile (\<lambda>x. x = c) (rev s))"

text \<open>
  \<^verbatim>\<open>os.path.dirname\<close> and \<^verbatim>\<open>os.path.join\<close> (two operands) as \<^verbatim>\<open>posixpath\<close> defines
  them; the server addresses a POSIX layout (\<^verbatim>\<open>str(Path.home()) + "/.ScreamingFrog..."\<close>).
  \<^verbatim>\<open>
  def dirname(p):
      i = p.rfind('/') + 1
      head = p[:i]
      if head and head != '/'*len(head):
          head = head.rstrip('/')
      return head

  def join(a, b):
      path = a
      if b.startswith('/'):
          path = b
      elif not path or path.endswith('/'):
          path += b
      else:
          path += '/' + b
      return path
  \<close>
\<close>

definition os_path_dirname :: "string \<Rightarrow> string" where
  "os_path_dirname p =
     (let i = rfind p CHR ''/'' + 1;
          head = take (nat i) p
      in if head \<noteq> [] \<and> head \<noteq> replicate (length head) CHR ''/''
         then rstrip head CHR ''/'' else head)"

definition os_path_join :: "string \<Rightarrow> string \<Rightarrow> string" where
  "os_path_join a b =
     (if prefix ''/'' b then b
      else if a = [] \<or> suffix ''/'' a then a @ b
      else a @ ''/'' @ b)"

text \<open>
  \<^verbatim>\<open>subprocess.run(command, check=True, capture_output=True, text=True)\<close>, step by step.
  The arguments are converted first: a token that holds a NUL byte raises
  \<^verbatim>\<open>ValueError\<close> before any child is spawned. Then the child is spawned: a missing
  executable raises \<^verbatim>\<open>FileNotFoundError\<close>, another failure of the spawn raises another
  exception. When the child has exited, its captured output is decoded: bytes that cannot
  be decoded raise \<^verbatim>\<open>UnicodeDecodeError\<close>, whatever the exit code. Last, because of
  \<^verbatim>\<open>check=True\<close>, a non-zero exit code raises \<^verbatim>\<open>CalledProcessError\<close>; a zero exit code
  returns the completed process. The events are the spawn, when one was attempted.
\<close>

definition has_nul :: "string list \<Rightarrow> bool" where
  "has_nul command = (\<exists>token \<in> set command. CHR 0x00 \<in> set token)"

definition subprocess_run ::
  "os_env \<Rightarrow> string list \<Rightarrow> event list \<times> (py_exception + completed_process)" where
  "subprocess_run env command =
     (if has_nul command then ([], Inl ValueError)
      else
        ([Run command (env_run env command)],
         (case env_run env command of
            ExecutableMissing \<Rightarrow> Inl FileNotFoundError
          | SpawnFailed why \<Rightarrow> Inl (OtherException why)
          | Exited rc out err \<Rightarrow>
              (case out of
                 None \<Rightarrow> Inl UnicodeDecodeError
               | Some out_text \<Rightarrow>
                   (case err of
                      None \<Rightarrow> Inl UnicodeDecodeError
                    | Some err_text \<Rightarrow>
                        if rc \<noteq> 0 then Inl (CalledProcessError rc command out_text err_text)
                        else Inr (CompletedProcess command rc out_text err_text))))))"

subsection \<open>\<^verbatim>\<open>domain_crawl\<close>\<close>

text \<open>
  A parameter with a default (\<open>output_folder\<close>, \<open>business_name\<close>, \<open>config\<close>, and in
  \<^verbatim>\<open>post_crawl_export\<close> the three lists and \<open>output_folder\<close>) is an ordinary argument
  here: the caller of the model passes the default where the caller of the tool leaves the
  parameter out.
\<close>

definition DEFAULT_EXPORTS_FOLDER :: string where
  "DEFAULT_EXPORTS_FOLDER = ''exports''"

text \<open>
  The argument vector of lines 40 to 63. \<^verbatim>\<open>if export_tabs:\<close> tests the list for
  non-emptiness; \<^verbatim>\<open>append\<close> adds one token and \<^verbatim>\<open>extend\<close> adds the elements in order.
  \<open>business_name\<close> and \<open>config\<close> are parameters of the tool that its body never reads.
\<close>

definition domain_crawl_command ::
  "string \<Rightarrow> string list \<Rightarrow> string list \<Rightarrow> string list \<Rightarrow> string \<Rightarrow> string \<Rightarrow> string
     \<Rightarrow> string list" where
  "domain_crawl_command domain export_tabs bulk_exports reports output_folder
       business_name config =
     (let command0 =
            [''screamingfrogseospider'',
             ''--crawl'', domain,
             ''--headless'',
             ''--output-folder'', output_folder,
             ''--export-format'', ''csv'',
             ''--timestamped-output'',
             ''--save-crawl''];
          command1 =
            (if export_tabs \<noteq> [] then (command0 @ [''--export-tabs'']) @ export_tabs
             else command0);
          command2 =
            (if bulk_exports \<noteq> [] then (command1 @ [''--bulk-export'']) @ bulk_exports
             else command1);
          command3 =
            (if reports \<noteq> [] then (command2 @ [''--save-report'']) @ reports
             else command2)
      in command3)"

text \<open>
  The tool catches \<^verbatim>\<open>FileNotFoundError\<close> and \<^verbatim>\<open>CalledProcessError\<close>; every other
  exception of \<^verbatim>\<open>subprocess.run\<close> leaves it.
\<close>

definition not_found_message :: string where
  "not_found_message =
     ''Error: 'screamingfrogseospider' command not found. Ensure it is installed and in the system's PATH.''"

definition domain_crawl ::
  "os_env \<Rightarrow> string \<Rightarrow> string list \<Rightarrow> string list \<Rightarrow> string list \<Rightarrow> string \<Rightarrow> string
     \<Rightarrow> string \<Rightarrow> py_dict outcome" where
  "domain_crawl env domain export_tabs bulk_exports reports output_folder business_name config =
     (let command =
            domain_crawl_command domain export_tabs bulk_exports reports output_folder
              business_name config;
          run = subprocess_run env command;
          before =
            [Log INFO (''Received request to crawl domain: '' @ domain),
             Log INFO (''Executing command: '' @ str_join '' '' command)] @ fst run
      in case snd run of
           Inr result \<Rightarrow>
             (before @
                [Log INFO (''Screaming Frog crawl for '' @ domain @ '' completed successfully.''),
                 Log INFO (''STDOUT: '' @ stdout result)],
              Inr [(''status'', ''success''), (''domain'', domain),
                   (''message'', ''Crawl completed.'')])
         | Inl FileNotFoundError \<Rightarrow>
             (let error_message = not_found_message
              in (before @ [Log ERROR error_message],
                  Inr [(''status'', ''error''), (''domain'', domain),
                       (''message'', error_message)]))
         | Inl (CalledProcessError rc cmd out err) \<Rightarrow>
             (let error_message =
                    ''Error running Screaming Frog for domain '' @ domain @
                    ''. Return code: '' @ str_int rc
              in (before @
                    [Log ERROR error_message,
                     Log ERROR (''STDOUT: '' @ out),
                     Log ERROR (''STDERR: '' @ err)],
                  Inr [(''status'', ''error''), (''domain'', domain),
                       (''message'', error_message), (''details'', err)]))
         | Inl ValueError \<Rightarrow> (before, Inl ValueError)
         | Inl UnicodeDecodeError \<Rightarrow> (before, Inl UnicodeDecodeError)
         | Inl (OtherException why) \<Rightarrow> (before, Inl (OtherException why)))"

subsection \<open>\<^verbatim>\<open>post_crawl_export\<close>\<close>

text \<open>Lines 100 to 105: the folder the export writes to.\<close>

definition export_output_folder :: "string \<Rightarrow> string \<Rightarrow> string" where
  "export_output_folder crawl_file output_folder =
     (let crawl_file_directory = os_path_dirname crawl_file
      in os_path_join crawl_file_directory output_folder)"

text \<open>The argument vector of lines 110 to 132.\<close>

definition post_crawl_export_command ::
  "string \<Rightarrow> string list \<Rightarrow> string list \<Rightarrow> string list \<Rightarrow> string \<Rightarrow> string list" where
  "post_crawl_export_command crawl_file export_tabs bulk_exports reports output_folder =
     (let command0 =
            [''screamingfrogseospider'',
             ''--headless'',
             ''--output-folder'', export_output_folder crawl_file output_folder,
             ''--export-format'', ''csv'',
             ''--timestamped-output'',
             ''--load-crawl'', crawl_file];
          command1 =
            (if export_tabs \<noteq> [] then (command0 @ [''--export-tabs'']) @ export_tabs
             else command0);
          command2 =
            (if bulk_exports \<noteq> [] then (command1 @ [''--bulk-export'']) @ bulk_exports
             else command1);
          command3 =
            (if reports \<noteq> [] then (command2 @ [''--save-report'']) @ reports
             else command2)
      in command3)"

text \<open>
  \<^verbatim>\<open>os.makedirs(export_output_folder, exist_ok=True)\<close> stands before the \<^verbatim>\<open>try\<close>: an
  exception it raises leaves the tool, and the child process is never started.
\<close>

definition post_crawl_export ::
  "os_env \<Rightarrow> string \<Rightarrow> string list \<Rightarrow> string list \<Rightarrow> string list \<Rightarrow> string
     \<Rightarrow> py_dict outcome" where
  "post_crawl_export env crawl_file export_tabs bulk_exports reports output_folder =
     (let folder = export_output_folder crawl_file output_folder;
          received =
            [Log INFO (''Received request to export data from crawl file: '' @ crawl_file),
             Makedirs folder]
      in case env_makedirs env folder of
           Some e \<Rightarrow> (received, Inl e)
         | None \<Rightarrow>
            (let command =
                   post_crawl_export_command crawl_file export_tabs bulk_exports reports
                     output_folder;
                 run = subprocess_run env command;
                 before =
                   received @
                   [Log INFO (''Executing command: '' @ str_join '' '' command)] @ fst run
             in case snd run of
                  Inr result \<Rightarrow>
                    (before @
                       [Log INFO (''Data export from '' @ crawl_file @ '' completed successfully.''),
                        Log INFO (''STDOUT: '' @ stdout result)],
                     Inr [(''status'', ''success''), (''crawl_file'', crawl_file),
                          (''message'', ''Data export completed.'')])
                | Inl FileNotFoundError \<Rightarrow>
                    (let error_message = not_found_message
                     in (before @ [Log ERROR error_message],
                         Inr [(''status'', ''error''), (''crawl_file'', crawl_file),
                              (''message'', error_message)]))
                | Inl (CalledProcessError rc cmd out err) \<Rightarrow>
                    (let error_message =
                           ''Error exporting data from '' @ crawl_file @
                           ''. Return code: '' @ str_int rc
                     in (before @
                           [Log ERROR error_message,
                            Log ERROR (''STDOUT: '' @ out),
                            Log ERROR (''STDERR: '' @ err)],
                         Inr [(''status'', ''error''), (''crawl_file'', crawl_file),
                              (''message'', error_message), (''details'', err)]))
                | Inl ValueError \<Rightarrow> (before, Inl ValueError)
                | Inl UnicodeDecodeError \<Rightarrow> (before, Inl UnicodeDecodeError)
                | Inl (OtherException why) \<Rightarrow> (before, Inl (OtherException why))))"

subsection \<open>The resources\<close>

text \<open>
  The three lists come from the module \<^verbatim>\<open>export_headers\<close>, which is not part of the
  source at hand: they are parameters here. No function of the server assigns to them or
  mutates them.
\<close>

definition export_header_reference ::
  "string list \<Rightarrow> string list \<Rightarrow> string list \<Rightarrow> ((string \<times> string list) list) outcome" where
  "export_header_reference export_tabs bulk_exports save_reports =
     ([], Inr [(''export-tabs'', export_tabs),
               (''bulk-exports'', bulk_exports),
               (''save-reports'', save_reports)])"



section \<open>Properties of commands and responses\<close>

text \<open>
  \<open>flag_with_values flag values later command\<close>: the command contains \<open>flag\<close> immediately
  followed by the tokens \<open>values\<close>, and after them the command ends or a flag of
  \<open>later\<close> stands.
\<close>

definition flag_with_values :: "string \<Rightarrow> string list \<Rightarrow> string list \<Rightarrow> string list \<Rightarrow> bool" where
  "flag_with_values flag values later command \<longleftrightarrow>
     (\<exists>pre post. command = pre @ flag # values @ post \<and> (post = [] \<or> hd post \<in> set later))"

text \<open>
  The rule of one identifier list: a non-empty list stands in the command behind its flag;
  for an empty list the flag is a token of the command exactly when one of the \<open>others\<close>
  (the tokens the caller supplies elsewhere) is that very string.
\<close>

definition category_flag_rule ::
  "string \<Rightarrow> string list \<Rightarrow> string list \<Rightarrow> string list \<Rightarrow> string list \<Rightarrow> bool" where
  "category_flag_rule flag values later others command \<longleftrightarrow>
     (values \<noteq> [] \<longrightarrow> flag_with_values flag values later command) \<and>
     (values = [] \<longrightarrow> (flag \<in> set command) = (flag \<in> set others))"

definition category_group :: "string \<Rightarrow> string list \<Rightarrow> string list" where
  "category_group flag values = (if values = [] then [] else flag # values)"

definition crawl_fixed_flags :: "string list" where
  "crawl_fixed_flags =
     [''--crawl'', ''--headless'', ''--output-folder'', ''--export-format'',
      ''--timestamped-output'', ''--save-crawl'']"

definition export_fixed_flags :: "string list" where
  "export_fixed_flags =
     [''--headless'', ''--output-folder'', ''--export-format'', ''--timestamped-output'',
      ''--load-crawl'']"

definition category_flags :: "string list" where
  "category_flags = [''--export-tabs'', ''--bulk-export'', ''--save-report'']"

definition present_category_flags :: "string list \<Rightarrow> string list \<Rightarrow> string list \<Rightarrow> string list" where
  "present_category_flags export_tabs bulk_exports reports =
     (if export_tabs = [] then [] else [''--export-tabs'']) @
     (if bulk_exports = [] then [] else [''--bulk-export'']) @
     (if reports = [] then [] else [''--save-report''])"


definition failed_response :: "py_exception + py_dict \<Rightarrow> int \<Rightarrow> string \<Rightarrow> bool" where
  "failed_response res rc err =
     (case res of
        Inl e \<Rightarrow> False
      | Inr d \<Rightarrow>
          map_of d ''status'' = Some ''error'' \<and> map_of d ''details'' = Some err \<and>
          (case map_of d ''message'' of
             None \<Rightarrow> False
           | Some msg \<Rightarrow> sublist (str_int rc) msg))"


definition success_response :: "py_exception + py_dict \<Rightarrow> string \<Rightarrow> string \<Rightarrow> bool" where
  "success_response res key val =
     (case res of
        Inl e \<Rightarrow> False
      | Inr d \<Rightarrow> map_of d ''status'' = Some ''success'' \<and> map_of d key = Some val)"

text \<open>
  Concrete environments. In \<open>env_absent\<close> the crawler is not installed, the per-user
  database directory does not exist, and \<^verbatim>\<open>os.makedirs('')\<close> raises
  \<^verbatim>\<open>FileNotFoundError\<close>, as it does on every file system. In \<open>env_child p\<close> every
  spawn has the result \<open>p\<close>. In \<open>env_denied\<close> the user may neither create a directory nor
  run the crawler.
\<close>

definition env_absent :: os_env where
  "env_absent =
     \<lparr>env_run = (\<lambda>command. ExecutableMissing),
      env_makedirs = (\<lambda>path. if path = [] then Some FileNotFoundError else None),
      env_listdir = (\<lambda>path. Inl FileNotFoundError),
      env_home = ''/home/user''\<rparr>"

definition env_child :: "proc_result \<Rightarrow> os_env" where
  "env_child p =
     \<lparr>env_run = (\<lambda>command. p),
      env_makedirs = (\<lambda>path. if path = [] then Some FileNotFoundError else None),
      env_listdir = (\<lambda>path. Inr [''db1'']),
      env_home = ''/home/user''\<rparr>"


section \<open>The tools, case by case\<close>

lemma domain_crawl_command_unfold:
  "domain_crawl_command d t b r o' bn cf =
     [''screamingfrogseospider'', ''--crawl'', d, ''--headless'', ''--output-folder'', o',
      ''--export-format'', ''csv'', ''--timestamped-output'', ''--save-crawl''] @
     (if t = [] then [] else ''--export-tabs'' # t) @
     (if b = [] then [] else ''--bulk-export'' # b) @
     (if r = [] then [] else ''--save-report'' # r)"
  by (simp add: domain_crawl_command_def Let_def)

lemma post_crawl_export_command_unfold:
  "post_crawl_export_command f t b r o' =
     [''screamingfrogseospider'', ''--headless'', ''--output-folder'',
      export_output_folder f o', ''--export-format'', ''csv'', ''--timestamped-output'',
      ''--load-crawl'', f] @
     (if t = [] then [] else ''--export-tabs'' # t) @
     (if b = [] then [] else ''--bulk-export'' # b) @
     (if r = [] then [] else ''--save-report'' # r)"
  by (simp add: post_crawl_export_command_def Let_def)

lemma subprocess_run_events:
  "fst (subprocess_run env c) = (if has_nul c then [] else [Run c (env_run env c)])"
  by (simp add: subprocess_run_def)




lemma subprocess_run_undecodable:
  "\<not> has_nul c \<Longrightarrow> env_run env c = Exited rc out err \<Longrightarrow> out = None \<or> err = None \<Longrightarrow>
   snd (subprocess_run env c) = Inl UnicodeDecodeError"
  by (auto simp: subprocess_run_def split: option.splits)

lemma subprocess_run_failed:
  "\<not> has_nul c \<Longrightarrow> env_run env c = Exited rc (Some out) (Some err) \<Longrightarrow> rc \<noteq> 0 \<Longrightarrow>
   snd (subprocess_run env c) = Inl (CalledProcessError rc c out err)"
  by (simp add: subprocess_run_def)

lemma subprocess_run_succeeded:
  "\<not> has_nul c \<Longrightarrow> env_run env c = Exited 0 (Some out) (Some err) \<Longrightarrow>
   snd (subprocess_run env c) = Inr (CompletedProcess c 0 out err)"
  by (simp add: subprocess_run_def)

lemma domain_crawl_run_event:
  "Run c p \<in> set (fst (domain_crawl env d t b r o' bn cf)) \<longleftrightarrow>
     \<not> has_nul (domain_crawl_command d t b r o' bn cf) \<and>
     c = domain_crawl_command d t b r o' bn cf \<and> p = env_run env c"
  by (auto simp: domain_crawl_def subprocess_run_events Let_def
      split: sum.splits py_exception.splits if_splits)

lemma post_crawl_export_run_event:
  "Run c p \<in> set (fst (post_crawl_export env f t b r o')) \<longleftrightarrow>
     env_makedirs env (export_output_folder f o') = None \<and>
     \<not> has_nul (post_crawl_export_command f t b r o') \<and>
     c = post_crawl_export_command f t b r o' \<and> p = env_run env c"
  by (auto simp: post_crawl_export_def subprocess_run_events Let_def
      split: sum.splits py_exception.splits if_splits option.splits)

lemma makedirs_event:
  "Makedirs (export_output_folder f o') \<in> set (fst (post_crawl_export env f t b r o'))"
  by (simp add: post_crawl_export_def Let_def
      split: option.split sum.split py_exception.split)


lemma domain_crawl_failed:
  "\<not> has_nul (domain_crawl_command d t b r o' bn cf) \<Longrightarrow>
   env_run env (domain_crawl_command d t b r o' bn cf) = Exited rc (Some out) (Some err) \<Longrightarrow>
   rc \<noteq> 0 \<Longrightarrow>
   snd (domain_crawl env d t b r o' bn cf) =
     Inr [(''status'', ''error''), (''domain'', d),
          (''message'', ''Error running Screaming Frog for domain '' @ d @
                        ''. Return code: '' @ str_int rc),
          (''details'', err)]"
  by (simp add: domain_crawl_def subprocess_run_failed Let_def)

lemma domain_crawl_succeeded:
  "\<not> has_nul (domain_crawl_command d t b r o' bn cf) \<Longrightarrow>
   env_run env (domain_crawl_command d t b r o' bn cf) = Exited 0 (Some out) (Some err) \<Longrightarrow>
   snd (domain_crawl env d t b r o' bn cf) =
     Inr [(''status'', ''success''), (''domain'', d), (''message'', ''Crawl completed.'')]"
  by (simp add: domain_crawl_def subprocess_run_succeeded Let_def)


lemma domain_crawl_undecodable:
  "\<not> has_nul (domain_crawl_command d t b r o' bn cf) \<Longrightarrow>
   env_run env (domain_crawl_command d t b r o' bn cf) = Exited rc out err \<Longrightarrow>
   out = None \<or> err = None \<Longrightarrow>
   snd (domain_crawl env d t b r o' bn cf) = Inl UnicodeDecodeError"
  by (simp add: domain_crawl_def subprocess_run_undecodable Let_def)



lemma post_crawl_export_failed:
  "env_makedirs env (export_output_folder f o') = None \<Longrightarrow>
   \<not> has_nul (post_crawl_export_command f t b r o') \<Longrightarrow>
   env_run env (post_crawl_export_command f t b r o') = Exited rc (Some out) (Some err) \<Longrightarrow>
   rc \<noteq> 0 \<Longrightarrow>
   snd (post_crawl_export env f t b r o') =
     Inr [(''status'', ''error''), (''crawl_file'', f),
          (''message'', ''Error exporting data from '' @ f @ ''. Return code: '' @ str_int rc),
          (''details'', err)]"
  by (simp add: post_crawl_export_def subprocess_run_failed Let_def)

lemma post_crawl_export_succeeded:
  "env_makedirs env (export_output_folder f o') = None \<Longrightarrow>
   \<not> has_nul (post_crawl_export_command f t b r o') \<Longrightarrow>
   env_run env (post_crawl_export_command f t b r o') = Exited 0 (Some out) (Some err) \<Longrightarrow>
   snd (post_crawl_export env f t b r o') =
     Inr [(''status'', ''success''), (''crawl_file'', f),
          (''message'', ''Data export completed.'')]"
  by (simp add: post_crawl_export_def subprocess_run_succeeded Let_def)

lemma post_crawl_export_undecodable:
  "env_makedirs env (export_output_folder f o') = None \<Longrightarrow>
   \<not> has_nul (post_crawl_export_command f t b r o') \<Longrightarrow>
   env_run env (post_crawl_export_command f t b r o') = Exited rc out err \<Longrightarrow>
   out = None \<or> err = None \<Longrightarrow>
   snd (post_crawl_export env f t b r o') = Inl UnicodeDecodeError"
  by (simp add: post_crawl_export_def subprocess_run_undecodable Let_def)


lemma export_folder_example: "export_output_folder ''/a/b/crawl.seospider'' ''out'' = ''/a/b/out''"
  by (simp add: export_output_folder_def os_path_dirname_def os_path_join_def rstrip_def
      Let_def suffix_def)

lemma crawl_example_no_nul:
  "\<not> has_nul (domain_crawl_command ''example.com'' [] [] [] ''exports''
                 ''default_business_name'' ''default.seospider'')"
  by (simp add: has_nul_def domain_crawl_command_def Let_def)

lemma export_example_no_nul:
  "\<not> has_nul (post_crawl_export_command ''/a/b/crawl.seospider'' [] [] [] ''out'')"
  by (simp add: has_nul_def post_crawl_export_command_def export_folder_example Let_def)

section \<open>The identifier lists in the command\<close>

lemma flag_with_valuesI:
  "command = pre @ flag # values @ post \<Longrightarrow> post = [] \<or> hd post \<in> set later \<Longrightarrow>
   flag_with_values flag values later command"
  unfolding flag_with_values_def by blast

lemma crawl_export_tabs_rule:
  "category_flag_rule ''--export-tabs'' t [''--bulk-export'', ''--save-report'']
     (d # o' # b @ r) (domain_crawl_command d t b r o' bn cf)"
proof -
  let ?fixed = "[''screamingfrogseospider'', ''--crawl'', d, ''--headless'', ''--output-folder'',
    o', ''--export-format'', ''csv'', ''--timestamped-output'', ''--save-crawl'']"
  let ?post = "(if b = [] then [] else ''--bulk-export'' # b) @
               (if r = [] then [] else ''--save-report'' # r)"
  have "flag_with_values ''--export-tabs'' t [''--bulk-export'', ''--save-report'']
          (domain_crawl_command d t b r o' bn cf)" if "t \<noteq> []"
    by (rule flag_with_valuesI [where pre = ?fixed and post = ?post])
       (use that in \<open>simp_all add: domain_crawl_command_unfold\<close>)
  moreover have "(''--export-tabs'' \<in> set (domain_crawl_command d t b r o' bn cf)) =
                 (''--export-tabs'' \<in> set (d # o' # b @ r))" if "t = []"
    using that by (auto simp: domain_crawl_command_unfold)
  ultimately show ?thesis by (simp add: category_flag_rule_def)
qed

lemma crawl_bulk_export_rule:
  "category_flag_rule ''--bulk-export'' b [''--save-report'']
     (d # o' # t @ r) (domain_crawl_command d t b r o' bn cf)"
proof -
  let ?pre = "[''screamingfrogseospider'', ''--crawl'', d, ''--headless'', ''--output-folder'',
    o', ''--export-format'', ''csv'', ''--timestamped-output'', ''--save-crawl''] @
    (if t = [] then [] else ''--export-tabs'' # t)"
  let ?post = "(if r = [] then [] else ''--save-report'' # r)"
  have "flag_with_values ''--bulk-export'' b [''--save-report'']
          (domain_crawl_command d t b r o' bn cf)" if "b \<noteq> []"
    by (rule flag_with_valuesI [where pre = ?pre and post = ?post])
       (use that in \<open>simp_all add: domain_crawl_command_unfold\<close>)
  moreover have "(''--bulk-export'' \<in> set (domain_crawl_command d t b r o' bn cf)) =
                 (''--bulk-export'' \<in> set (d # o' # t @ r))" if "b = []"
    using that by (auto simp: domain_crawl_command_unfold)
  ultimately show ?thesis by (simp add: category_flag_rule_def)
qed

lemma crawl_save_report_rule:
  "category_flag_rule ''--save-report'' r []
     (d # o' # t @ b) (domain_crawl_command d t b r o' bn cf)"
proof -
  let ?pre = "[''screamingfrogseospider'', ''--crawl'', d, ''--headless'', ''--output-folder'',
    o', ''--export-format'', ''csv'', ''--timestamped-output'', ''--save-crawl''] @
    (if t = [] then [] else ''--export-tabs'' # t) @
    (if b = [] then [] else ''--bulk-export'' # b)"
  have "flag_with_values ''--save-report'' r [] (domain_crawl_command d t b r o' bn cf)"
    if "r \<noteq> []"
    by (rule flag_with_valuesI [where pre = ?pre and post = "[]"])
       (use that in \<open>simp_all add: domain_crawl_command_unfold\<close>)
  moreover have "(''--save-report'' \<in> set (domain_crawl_command d t b r o' bn cf)) =
                 (''--save-report'' \<in> set (d # o' # t @ b))" if "r = []"
    using that by (auto simp: domain_crawl_command_unfold)
  ultimately show ?thesis by (simp add: category_flag_rule_def)
qed

lemma export_export_tabs_rule:
  "category_flag_rule ''--export-tabs'' t [''--bulk-export'', ''--save-report'']
     (f # export_output_folder f o' # b @ r) (post_crawl_export_command f t b r o')"
proof -
  let ?fixed = "[''screamingfrogseospider'', ''--headless'', ''--output-folder'',
      export_output_folder f o', ''--export-format'', ''csv'', ''--timestamped-output'',
      ''--load-crawl'', f]"
  let ?post = "(if b = [] then [] else ''--bulk-export'' # b) @
               (if r = [] then [] else ''--save-report'' # r)"
  have "flag_with_values ''--export-tabs'' t [''--bulk-export'', ''--save-report'']
          (post_crawl_export_command f t b r o')" if "t \<noteq> []"
    by (rule flag_with_valuesI [where pre = ?fixed and post = ?post])
       (use that in \<open>simp_all add: post_crawl_export_command_unfold\<close>)
  moreover have "(''--export-tabs'' \<in> set (post_crawl_export_command f t b r o')) =
                 (''--export-tabs'' \<in> set (f # export_output_folder f o' # b @ r))" if "t = []"
    using that by (auto simp: post_crawl_export_command_unfold)
  ultimately show ?thesis by (simp add: category_flag_rule_def)
qed

lemma export_bulk_export_rule:
  "category_flag_rule ''--bulk-export'' b [''--save-report'']
     (f # export_output_folder f o' # t @ r) (post_crawl_export_command f t b r o')"
proof -
  let ?pre = "[''screamingfrogseospider'', ''--headless'', ''--output-folder'',
      export_output_folder f o', ''--export-format'', ''csv'', ''--timestamped-output'',
      ''--load-crawl'', f] @
    (if t = [] then [] else ''--export-tabs'' # t)"
  let ?post = "(if r = [] then [] else ''--save-report'' # r)"
  have "flag_with_values ''--bulk-export'' b [''--save-report'']
          (post_crawl_export_command f t b r o')" if "b \<noteq> []"
    by (rule flag_with_valuesI [where pre = ?pre and post = ?post])
       (use that in \<open>simp_all add: post_crawl_export_command_unfold\<close>)
  moreover have "(''--bulk-export'' \<in> set (post_crawl_export_command f t b r o')) =
                 (''--bulk-export'' \<in> set (f # export_output_folder f o' # t @ r))" if "b = []"
    using that by (auto simp: post_crawl_export_command_unfold)
  ultimately show ?thesis by (simp add: category_flag_rule_def)
qed

lemma export_save_report_rule:
  "category_flag_rule ''--save-report'' r []
     (f # export_output_folder f o' # t @ b) (post_crawl_export_command f t b r o')"
proof -
  let ?pre = "[''screamingfrogseospider'', ''--headless'', ''--output-folder'',
      export_output_folder f o', ''--export-format'', ''csv'', ''--timestamped-output'',
      ''--load-crawl'', f] @
    (if t = [] then [] else ''--export-tabs'' # t) @
    (if b = [] then [] else ''--bulk-export'' # b)"
  have "flag_with_values ''--save-report'' r [] (post_crawl_export_command f t b r o')"
    if "r \<noteq> []"
    by (rule flag_with_valuesI [where pre = ?pre and post = "[]"])
       (use that in \<open>simp_all add: post_crawl_export_command_unfold\<close>)
  moreover have "(''--save-report'' \<in> set (post_crawl_export_command f t b r o')) =
                 (''--save-report'' \<in> set (f # export_output_folder f o' # t @ b))" if "r = []"
    using that by (auto simp: post_crawl_export_command_unfold)
  ultimately show ?thesis by (simp add: category_flag_rule_def)
qed

text \<open>
  Claim C1, as amended. For each of the three identifier lists of \<^verbatim>\<open>domain_crawl\<close> and of
  \<^verbatim>\<open>post_crawl_export\<close>: if the list is non-empty, the built command contains the
  category flag (\<^verbatim>\<open>--export-tabs\<close>, \<^verbatim>\<open>--bulk-export\<close>, \<^verbatim>\<open>--save-report\<close>) immediately
  followed by exactly the elements of the list, in the caller's order, after which the
  command ends or the flag of a later list stands. If the list is empty, the builder adds
  no such flag: the flag is a token of the command exactly when a token the caller
  supplies elsewhere (the domain or crawl file, the output folder, an element of one of
  the other two lists) is that very string, so it is absent whenever no such token equals
  it. The tokens are passed through unvalidated, which is why the flag is not absent for
  every input.
\<close>

theorem category_flags_follow_lists:
  "category_flag_rule ''--export-tabs'' export_tabs [''--bulk-export'', ''--save-report'']
     (domain # output_folder # bulk_exports @ reports)
     (domain_crawl_command domain export_tabs bulk_exports reports output_folder
        business_name config) \<and>
   category_flag_rule ''--bulk-export'' bulk_exports [''--save-report'']
     (domain # output_folder # export_tabs @ reports)
     (domain_crawl_command domain export_tabs bulk_exports reports output_folder
        business_name config) \<and>
   category_flag_rule ''--save-report'' reports []
     (domain # output_folder # export_tabs @ bulk_exports)
     (domain_crawl_command domain export_tabs bulk_exports reports output_folder
        business_name config) \<and>
   category_flag_rule ''--export-tabs'' export_tabs [''--bulk-export'', ''--save-report'']
     (crawl_file # export_output_folder crawl_file output_folder # bulk_exports @ reports)
     (post_crawl_export_command crawl_file export_tabs bulk_exports reports output_folder) \<and>
   category_flag_rule ''--bulk-export'' bulk_exports [''--save-report'']
     (crawl_file # export_output_folder crawl_file output_folder # export_tabs @ reports)
     (post_crawl_export_command crawl_file export_tabs bulk_exports reports output_folder) \<and>
   category_flag_rule ''--save-report'' reports []
     (crawl_file # export_output_folder crawl_file output_folder # export_tabs @ bulk_exports)
     (post_crawl_export_command crawl_file export_tabs bulk_exports reports output_folder)"
  by (intro conjI crawl_export_tabs_rule crawl_bulk_export_rule crawl_save_report_rule
      export_export_tabs_rule export_bulk_export_rule export_save_report_rule)

text \<open>
  The theorem at a crawl with two export tabs, no bulk export and one report, and at an
  export with one report only.
\<close>

theorem category_flags_follow_lists_witness:
  "flag_with_values ''--export-tabs'' [''Internal:All'', ''Response Codes:All'']
     [''--bulk-export'', ''--save-report'']
     (domain_crawl_command ''example.com'' [''Internal:All'', ''Response Codes:All''] []
        [''Crawl Overview''] ''exports'' ''default_business_name'' ''default.seospider'') \<and>
   ''--bulk-export'' \<notin> set
     (domain_crawl_command ''example.com'' [''Internal:All'', ''Response Codes:All''] []
        [''Crawl Overview''] ''exports'' ''default_business_name'' ''default.seospider'') \<and>
   flag_with_values ''--save-report'' [''Crawl Overview''] []
     (post_crawl_export_command ''/a/b/crawl.seospider'' [] [] [''Crawl Overview'']
        ''postcrawl-exports'') \<and>
   ''--export-tabs'' \<notin> set
     (post_crawl_export_command ''/a/b/crawl.seospider'' [] [] [''Crawl Overview'']
        ''postcrawl-exports'')"
  using category_flags_follow_lists [where export_tabs = "[''Internal:All'', ''Response Codes:All'']"
      and bulk_exports = "[]" and reports = "[''Crawl Overview'']" and domain = "''example.com''"
      and output_folder = "''exports''" and business_name = "''default_business_name''"
      and config = "''default.seospider''" and crawl_file = "''/a/b/crawl.seospider''"]
    category_flags_follow_lists [where export_tabs = "[]"
      and bulk_exports = "[]" and reports = "[''Crawl Overview'']" and domain = "''example.com''"
      and output_folder = "''postcrawl-exports''" and business_name = "''default_business_name''"
      and config = "''default.seospider''" and crawl_file = "''/a/b/crawl.seospider''"]
  by (simp add: category_flag_rule_def export_output_folder_def os_path_dirname_def
      os_path_join_def rstrip_def Let_def suffix_def)

text \<open>
  The claim as first stated fails: with an empty \<open>export_tabs\<close> list the command still
  holds the token \<^verbatim>\<open>--export-tabs\<close> when the caller passes it as a bulk export.
\<close>

theorem category_flag_present_for_empty_list:
  "''--export-tabs'' \<in> set
     (domain_crawl_command ''example.com'' [] [''--export-tabs'', ''Internal:All''] []
        ''exports'' ''default_business_name'' ''default.seospider'')"
  by (simp add: domain_crawl_command_def Let_def)

section \<open>The domain flag\<close>

text \<open>
  Claim C6, as amended. For every domain \<open>d\<close> the command built by \<^verbatim>\<open>domain_crawl\<close> has the
  flag \<^verbatim>\<open>--crawl\<close> at index 1, immediately followed by exactly \<open>d\<close> at index 2. The builder
  writes the flag once; as a token, \<^verbatim>\<open>--crawl\<close> occurs in the command once more for every
  token the caller supplies (the domain, the output folder, the identifiers) that is
  itself \<^verbatim>\<open>--crawl\<close>, hence exactly once whenever no such token equals it.
\<close>

theorem crawl_flag_followed_by_domain:
  "domain_crawl_command domain export_tabs bulk_exports reports output_folder
     business_name config ! 1 = ''--crawl'' \<and>
   domain_crawl_command domain export_tabs bulk_exports reports output_folder
     business_name config ! 2 = domain \<and>
   sublist [''--crawl'', domain]
     (domain_crawl_command domain export_tabs bulk_exports reports output_folder
        business_name config) \<and>
   count_list
     (domain_crawl_command domain export_tabs bulk_exports reports output_folder
        business_name config) ''--crawl'' =
     1 + count_list (domain # output_folder # export_tabs @ bulk_exports @ reports) ''--crawl'' \<and>
   (''--crawl'' \<notin> set (domain # output_folder # export_tabs @ bulk_exports @ reports) \<longrightarrow>
    count_list
      (domain_crawl_command domain export_tabs bulk_exports reports output_folder
         business_name config) ''--crawl'' = 1)"
proof -
  let ?cmd = "domain_crawl_command domain export_tabs bulk_exports reports output_folder
     business_name config"
  have nth1: "?cmd ! 1 = ''--crawl''" and nth2: "?cmd ! 2 = domain"
    by (simp_all add: domain_crawl_command_unfold)
  have "?cmd = [''screamingfrogseospider''] @ [''--crawl'', domain] @ drop 3 ?cmd"
    by (simp add: domain_crawl_command_unfold)
  then have sub: "sublist [''--crawl'', domain] ?cmd"
    by (metis sublist_appendI)
  have cnt: "count_list ?cmd ''--crawl'' =
      1 + count_list (domain # output_folder # export_tabs @ bulk_exports @ reports) ''--crawl''"
    by (simp add: domain_crawl_command_unfold)
  have "count_list ?cmd ''--crawl'' = 1"
    if "''--crawl'' \<notin> set (domain # output_folder # export_tabs @ bulk_exports @ reports)"
  proof -
    have "count_list (domain # output_folder # export_tabs @ bulk_exports @ reports) ''--crawl'' = 0"
      using that by (rule count_notin)
    with cnt show ?thesis by (simp only: add_0_right)
  qed
  with nth1 nth2 sub cnt show ?thesis by blast
qed

text \<open>The theorem at a crawl of \<^verbatim>\<open>example.com\<close> with one export tab.\<close>

theorem crawl_flag_followed_by_domain_witness:
  "domain_crawl_command ''example.com'' [''Internal:All''] [] [] ''exports''
     ''default_business_name'' ''default.seospider'' ! 2 = ''example.com'' \<and>
   count_list
     (domain_crawl_command ''example.com'' [''Internal:All''] [] [] ''exports''
        ''default_business_name'' ''default.seospider'') ''--crawl'' = 1"
  using crawl_flag_followed_by_domain [where domain = "''example.com''"
      and export_tabs = "[''Internal:All'']" and bulk_exports = "[]" and reports = "[]"
      and output_folder = "''exports''" and business_name = "''default_business_name''"
      and config = "''default.seospider''"]
  by simp

text \<open>
  The claim as first stated fails: for the domain value \<^verbatim>\<open>--crawl\<close> the token stands at
  index 1 and at index 2, twice in the command.
\<close>

theorem crawl_flag_twice:
  "count_list
     (domain_crawl_command ''--crawl'' [] [] [] ''exports''
        ''default_business_name'' ''default.seospider'') ''--crawl'' = 2"
  by (simp add: domain_crawl_command_def Let_def)

section \<open>The order of the flags\<close>

lemma filter_no_member: "set xs \<inter> set fs = {} \<Longrightarrow> filter (\<lambda>x. x \<in> set fs) xs = []"
  by (auto simp: filter_empty_conv)

lemma crawl_command_groups:
  "domain_crawl_command d t b r o' bn cf =
     [''screamingfrogseospider'', ''--crawl'', d, ''--headless'', ''--output-folder'', o',
      ''--export-format'', ''csv'', ''--timestamped-output'', ''--save-crawl''] @
     category_group ''--export-tabs'' t @ category_group ''--bulk-export'' b @
     category_group ''--save-report'' r"
  by (simp add: domain_crawl_command_unfold category_group_def)

lemma export_command_groups:
  "post_crawl_export_command f t b r o' =
     [''screamingfrogseospider'', ''--headless'', ''--output-folder'',
      export_output_folder f o', ''--export-format'', ''csv'', ''--timestamped-output'',
      ''--load-crawl'', f] @
     category_group ''--export-tabs'' t @ category_group ''--bulk-export'' b @
     category_group ''--save-report'' r"
  by (simp add: post_crawl_export_command_unfold category_group_def)

lemma filter_category_group:
  "flag \<in> set fs \<Longrightarrow> set values \<inter> set fs = {} \<Longrightarrow>
   filter (\<lambda>x. x \<in> set fs) (category_group flag values) = (if values = [] then [] else [flag])"
  by (simp add: category_group_def filter_no_member)

lemma crawl_flags_in_order:
  assumes "set (d # o' # t @ b @ r) \<inter> set (crawl_fixed_flags @ category_flags) = {}"
  shows "filter (\<lambda>x. x \<in> set (crawl_fixed_flags @ category_flags))
           (domain_crawl_command d t b r o' bn cf) =
         crawl_fixed_flags @ present_category_flags t b r"
proof -
  let ?fs = "crawl_fixed_flags @ category_flags"
  from assms have d: "d \<notin> set ?fs" and o': "o' \<notin> set ?fs"
    and t: "set t \<inter> set ?fs = {}" and b: "set b \<inter> set ?fs = {}"
    and r: "set r \<inter> set ?fs = {}"
    by auto
  have fixed: "filter (\<lambda>x. x \<in> set ?fs)
      [''screamingfrogseospider'', ''--crawl'', d, ''--headless'', ''--output-folder'', o',
       ''--export-format'', ''csv'', ''--timestamped-output'', ''--save-crawl''] =
      crawl_fixed_flags"
    using d o' by (simp add: crawl_fixed_flags_def category_flags_def)
  have mem: "''--export-tabs'' \<in> set ?fs" "''--bulk-export'' \<in> set ?fs"
    "''--save-report'' \<in> set ?fs"
    by (simp_all add: category_flags_def)
  show ?thesis
    unfolding crawl_command_groups filter_append fixed
      filter_category_group [OF mem(1) t] filter_category_group [OF mem(2) b]
      filter_category_group [OF mem(3) r] present_category_flags_def
    by simp
qed

lemma export_flags_in_order:
  assumes "set (f # export_output_folder f o' # t @ b @ r) \<inter>
           set (export_fixed_flags @ category_flags) = {}"
  shows "filter (\<lambda>x. x \<in> set (export_fixed_flags @ category_flags))
           (post_crawl_export_command f t b r o') =
         export_fixed_flags @ present_category_flags t b r"
proof -
  let ?fs = "export_fixed_flags @ category_flags"
  from assms have f: "f \<notin> set ?fs" and o': "export_output_folder f o' \<notin> set ?fs"
    and t: "set t \<inter> set ?fs = {}" and b: "set b \<inter> set ?fs = {}"
    and r: "set r \<inter> set ?fs = {}"
    by auto
  have fixed: "filter (\<lambda>x. x \<in> set ?fs)
      [''screamingfrogseospider'', ''--headless'', ''--output-folder'',
       export_output_folder f o', ''--export-format'', ''csv'', ''--timestamped-output'',
       ''--load-crawl'', f] =
      export_fixed_flags"
    using f o' by (simp add: export_fixed_flags_def category_flags_def)
  have mem: "''--export-tabs'' \<in> set ?fs" "''--bulk-export'' \<in> set ?fs"
    "''--save-report'' \<in> set ?fs"
    by (simp_all add: category_flags_def)
  show ?thesis
    unfolding export_command_groups filter_append fixed
      filter_category_group [OF mem(1) t] filter_category_group [OF mem(2) b]
      filter_category_group [OF mem(3) r] present_category_flags_def
    by simp
qed

text \<open>
  Claim C10, as amended. Every command built by \<^verbatim>\<open>domain_crawl\<close> or \<^verbatim>\<open>post_crawl_export\<close>
  is the fixed tokens followed by the group of \<^verbatim>\<open>--export-tabs\<close>, then the group of
  \<^verbatim>\<open>--bulk-export\<close>, then the group of \<^verbatim>\<open>--save-report\<close>, a group being empty for an empty
  list and the flag with the list's elements otherwise: the flags the builder appends come
  after all fixed flags and in that order, whatever the inputs. As tokens of the command
  the same order holds when no token the caller supplies is itself one of the flags: the
  flags of the command, read from left to right, are then the fixed flags followed by the
  category flags of the non-empty lists, in the order export tabs, bulk export, save
  report.
\<close>

theorem category_flags_after_fixed_flags:
  "domain_crawl_command domain export_tabs bulk_exports reports output_folder
     business_name config =
     [''screamingfrogseospider'', ''--crawl'', domain, ''--headless'', ''--output-folder'',
      output_folder, ''--export-format'', ''csv'', ''--timestamped-output'', ''--save-crawl''] @
     category_group ''--export-tabs'' export_tabs @
     category_group ''--bulk-export'' bulk_exports @
     category_group ''--save-report'' reports \<and>
   (set (domain # output_folder # export_tabs @ bulk_exports @ reports) \<inter>
      set (crawl_fixed_flags @ category_flags) = {} \<longrightarrow>
    filter (\<lambda>x. x \<in> set (crawl_fixed_flags @ category_flags))
      (domain_crawl_command domain export_tabs bulk_exports reports output_folder
         business_name config) =
      crawl_fixed_flags @ present_category_flags export_tabs bulk_exports reports) \<and>
   post_crawl_export_command crawl_file export_tabs bulk_exports reports output_folder =
     [''screamingfrogseospider'', ''--headless'', ''--output-folder'',
      export_output_folder crawl_file output_folder, ''--export-format'', ''csv'',
      ''--timestamped-output'', ''--load-crawl'', crawl_file] @
     category_group ''--export-tabs'' export_tabs @
     category_group ''--bulk-export'' bulk_exports @
     category_group ''--save-report'' reports \<and>
   (set (crawl_file # export_output_folder crawl_file output_folder #
         export_tabs @ bulk_exports @ reports) \<inter>
      set (export_fixed_flags @ category_flags) = {} \<longrightarrow>
    filter (\<lambda>x. x \<in> set (export_fixed_flags @ category_flags))
      (post_crawl_export_command crawl_file export_tabs bulk_exports reports output_folder) =
      export_fixed_flags @ present_category_flags export_tabs bulk_exports reports)"
  by (intro conjI impI crawl_command_groups export_command_groups crawl_flags_in_order
      export_flags_in_order)

text \<open>
  The theorem at a crawl with an export tab and a report, and at an export with an export
  tab and a bulk export.
\<close>

theorem category_flags_after_fixed_flags_witness:
  "filter (\<lambda>x. x \<in> set (crawl_fixed_flags @ category_flags))
     (domain_crawl_command ''example.com'' [''Internal:All''] [] [''Crawl Overview'']
        ''exports'' ''default_business_name'' ''default.seospider'') =
     crawl_fixed_flags @ [''--export-tabs'', ''--save-report''] \<and>
   filter (\<lambda>x. x \<in> set (export_fixed_flags @ category_flags))
     (post_crawl_export_command ''/a/b/crawl.seospider'' [''Internal:All''] [''All Inlinks'']
        [] ''out'') =
     export_fixed_flags @ [''--export-tabs'', ''--bulk-export'']"
proof -
  have folder: "export_output_folder ''/a/b/crawl.seospider'' ''out'' = ''/a/b/out''"
    by (simp add: export_output_folder_def os_path_dirname_def os_path_join_def rstrip_def
        Let_def suffix_def)
  have crawl_tokens:
    "set (''example.com'' # ''exports'' # [''Internal:All''] @ [] @ [''Crawl Overview'']) \<inter>
       set (crawl_fixed_flags @ category_flags) = {}"
    by (simp add: crawl_fixed_flags_def category_flags_def)
  have export_tokens:
    "set (''/a/b/crawl.seospider'' # export_output_folder ''/a/b/crawl.seospider'' ''out'' #
          [''Internal:All''] @ [''All Inlinks''] @ []) \<inter>
       set (export_fixed_flags @ category_flags) = {}"
    unfolding folder by (simp add: export_fixed_flags_def category_flags_def)
  have present:
    "present_category_flags [''Internal:All''] [] [''Crawl Overview''] =
       [''--export-tabs'', ''--save-report'']"
    "present_category_flags [''Internal:All''] [''All Inlinks''] [] =
       [''--export-tabs'', ''--bulk-export'']"
    by (simp_all add: present_category_flags_def)
  have "filter (\<lambda>x. x \<in> set (crawl_fixed_flags @ category_flags))
     (domain_crawl_command ''example.com'' [''Internal:All''] [] [''Crawl Overview'']
        ''exports'' ''default_business_name'' ''default.seospider'') =
     crawl_fixed_flags @ present_category_flags [''Internal:All''] [] [''Crawl Overview'']"
    using category_flags_after_fixed_flags [where domain = "''example.com''"
        and export_tabs = "[''Internal:All'']" and bulk_exports = "[]"
        and reports = "[''Crawl Overview'']" and output_folder = "''exports''"
        and business_name = "''default_business_name''" and config = "''default.seospider''"
        and crawl_file = "''/a/b/crawl.seospider''"]
      crawl_tokens
    by blast
  moreover have "filter (\<lambda>x. x \<in> set (export_fixed_flags @ category_flags))
     (post_crawl_export_command ''/a/b/crawl.seospider'' [''Internal:All''] [''All Inlinks'']
        [] ''out'') =
     export_fixed_flags @ present_category_flags [''Internal:All''] [''All Inlinks''] []"
    using category_flags_after_fixed_flags [where domain = "''example.com''"
        and export_tabs = "[''Internal:All'']" and bulk_exports = "[''All Inlinks'']"
        and reports = "[]" and output_folder = "''out''"
        and business_name = "''default_business_name''" and config = "''default.seospider''"
        and crawl_file = "''/a/b/crawl.seospider''"]
      export_tokens
    by blast
  ultimately show ?thesis
    by (simp only: present)
qed

text \<open>
  The claim as first stated fails: when the caller passes \<^verbatim>\<open>--save-report\<close> as an export
  tab, that token stands at index 11, before \<^verbatim>\<open>--bulk-export\<close> at index 12.
\<close>

theorem save_report_token_before_bulk_export:
  "domain_crawl_command ''example.com'' [''--save-report''] [''All Inlinks''] [] ''exports''
     ''default_business_name'' ''default.seospider'' ! 11 = ''--save-report'' \<and>
   domain_crawl_command ''example.com'' [''--save-report''] [''All Inlinks''] [] ''exports''
     ''default_business_name'' ''default.seospider'' ! 12 = ''--bulk-export''"
  by (simp add: domain_crawl_command_def Let_def)

section \<open>Parameters the crawl never reads\<close>

text \<open>
  Claim C9. Two invocations of \<^verbatim>\<open>domain_crawl\<close> that differ only in \<open>business_name\<close> and
  \<open>config\<close> build the same command, and in the same environment they cause the same
  events and return the same result.
\<close>

theorem business_name_and_config_unused:
  "domain_crawl_command domain export_tabs bulk_exports reports output_folder
     business_name config =
   domain_crawl_command domain export_tabs bulk_exports reports output_folder
     business_name' config' \<and>
   domain_crawl env domain export_tabs bulk_exports reports output_folder
     business_name config =
   domain_crawl env domain export_tabs bulk_exports reports output_folder
     business_name' config'"
proof -
  have "domain_crawl_command domain export_tabs bulk_exports reports output_folder
          business_name config =
        domain_crawl_command domain export_tabs bulk_exports reports output_folder
          business_name' config'"
    by (simp add: domain_crawl_command_def)
  then show ?thesis
    by (simp add: domain_crawl_def)
qed

section \<open>The output folder of an export\<close>

lemma os_path_join_absolute: "prefix ''/'' b \<Longrightarrow> os_path_join a b = b"
  by (simp add: os_path_join_def)

text \<open>
  Claim C5. In \<^verbatim>\<open>post_crawl_export\<close> the resolved output directory, which is the token
  behind \<^verbatim>\<open>--output-folder\<close> and the directory \<^verbatim>\<open>os.makedirs\<close> is called with, is the
  path-join of the directory component of \<open>crawl_file\<close> with \<open>output_folder\<close>; when
  \<open>output_folder\<close> is absolute (it starts with a slash) the resolved directory is
  \<open>output_folder\<close> itself, whatever the crawl file. With the crawl file
  \<^verbatim>\<open>/a/b/crawl.seospider\<close>, the folder \<^verbatim>\<open>out\<close> resolves to \<^verbatim>\<open>/a/b/out\<close> and the folder
  \<^verbatim>\<open>/abs/out\<close> to \<^verbatim>\<open>/abs/out\<close>.
\<close>

theorem output_folder_resolution:
  "export_output_folder crawl_file output_folder =
     os_path_join (os_path_dirname crawl_file) output_folder \<and>
   sublist [''--output-folder'', os_path_join (os_path_dirname crawl_file) output_folder]
     (post_crawl_export_command crawl_file export_tabs bulk_exports reports output_folder) \<and>
   Makedirs (os_path_join (os_path_dirname crawl_file) output_folder) \<in>
     set (fst (post_crawl_export env crawl_file export_tabs bulk_exports reports output_folder)) \<and>
   (prefix ''/'' output_folder \<longrightarrow>
      export_output_folder crawl_file output_folder = output_folder) \<and>
   export_output_folder ''/a/b/crawl.seospider'' ''out'' = ''/a/b/out'' \<and>
   export_output_folder ''/a/b/crawl.seospider'' ''/abs/out'' = ''/abs/out''"
proof -
  let ?dir = "os_path_join (os_path_dirname crawl_file) output_folder"
  let ?cmd = "post_crawl_export_command crawl_file export_tabs bulk_exports reports
                output_folder"
  have folder: "export_output_folder crawl_file output_folder = ?dir"
    by (simp add: export_output_folder_def)
  have "?cmd = [''screamingfrogseospider'', ''--headless''] @
               [''--output-folder'', ?dir] @ drop 4 ?cmd"
    by (simp add: post_crawl_export_command_unfold folder)
  then have token: "sublist [''--output-folder'', ?dir] ?cmd"
    by (metis sublist_appendI)
  have made: "Makedirs ?dir \<in>
      set (fst (post_crawl_export env crawl_file export_tabs bulk_exports reports output_folder))"
    using makedirs_event [of crawl_file output_folder] by (simp only: folder)
  have absolute: "export_output_folder crawl_file output_folder = output_folder"
    if "prefix ''/'' output_folder"
    using that by (simp add: folder os_path_join_absolute)
  have relative_example: "export_output_folder ''/a/b/crawl.seospider'' ''out'' = ''/a/b/out''"
    by (simp add: export_output_folder_def os_path_dirname_def os_path_join_def rstrip_def
        Let_def suffix_def)
  have absolute_example:
    "export_output_folder ''/a/b/crawl.seospider'' ''/abs/out'' = ''/abs/out''"
    by (simp add: export_output_folder_def os_path_join_def)
  from folder token made absolute relative_example absolute_example show ?thesis
    by blast
qed

text \<open>The theorem at an absolute output folder.\<close>

theorem output_folder_resolution_witness:
  "prefix ''/'' ''/srv/exports'' \<and>
   export_output_folder ''/home/user/crawls/site.seospider'' ''/srv/exports'' = ''/srv/exports''"
proof -
  have absolute: "prefix ''/'' ''/srv/exports''"
    by simp
  with output_folder_resolution [where crawl_file = "''/home/user/crawls/site.seospider''"
      and output_folder = "''/srv/exports''" and export_tabs = "[]" and bulk_exports = "[]"
      and reports = "[]" and env = env_absent]
  show ?thesis by blast
qed

section \<open>The export header reference\<close>

text \<open>
  Claim C8. \<^verbatim>\<open>export_header_reference\<close> causes no event and returns a dictionary with
  exactly the keys \<^verbatim>\<open>export-tabs\<close>, \<^verbatim>\<open>bulk-exports\<close> and \<^verbatim>\<open>save-reports\<close>, bound to the three
  static lists unmodified. The result is determined by the three lists alone, which no
  operation of the server changes, so every call returns the same dictionary.
\<close>

theorem export_header_reference_static:
  "fst (export_header_reference export_tabs bulk_exports save_reports) = [] \<and>
   (\<exists>d. snd (export_header_reference export_tabs bulk_exports save_reports) = Inr d \<and>
        map fst d = [''export-tabs'', ''bulk-exports'', ''save-reports''] \<and>
        map_of d ''export-tabs'' = Some export_tabs \<and>
        map_of d ''bulk-exports'' = Some bulk_exports \<and>
        map_of d ''save-reports'' = Some save_reports)"
  by (simp add: export_header_reference_def)

section \<open>The outcome of the child process\<close>

lemma sublist_at_end: "sublist xs (a @ b @ c @ xs)"
  using sublist_append_leftI [of xs "a @ b @ c"] by simp

lemma failed_responseI:
  assumes "k \<noteq> ''message''" and "k \<noteq> ''details''"
  shows "failed_response
           (Inr [(''status'', ''error''), (k, v), (''message'', a @ b @ c @ str_int rc),
                 (''details'', err)]) rc err"
  using assms by (simp add: failed_response_def sublist_at_end)



text \<open>
  Claim C2, as amended. Whenever the child process of an invocation of \<^verbatim>\<open>domain_crawl\<close> or
  \<^verbatim>\<open>post_crawl_export\<close> exits with a non-zero code \<open>rc\<close> and both captured streams can be
  decoded as text (\<open>out\<close> and \<open>err\<close>), the invocation returns a dictionary whose status is
  \<^verbatim>\<open>error\<close>, whose \<^verbatim>\<open>details\<close> is \<open>err\<close> and whose message contains the decimal numeral of
  \<open>rc\<close>. A stream that cannot be decoded makes \<^verbatim>\<open>subprocess.run\<close> raise
  \<^verbatim>\<open>UnicodeDecodeError\<close>, which neither handler catches.
\<close>

theorem non_zero_exit_is_error:
  "(Run command (Exited rc (Some out) (Some err)) \<in>
      set (fst (domain_crawl env domain export_tabs bulk_exports reports output_folder
                  business_name config)) \<and> rc \<noteq> 0 \<longrightarrow>
    failed_response
      (snd (domain_crawl env domain export_tabs bulk_exports reports output_folder
              business_name config)) rc err) \<and>
   (Run command (Exited rc (Some out) (Some err)) \<in>
      set (fst (post_crawl_export env crawl_file export_tabs bulk_exports reports
                  output_folder)) \<and> rc \<noteq> 0 \<longrightarrow>
    failed_response
      (snd (post_crawl_export env crawl_file export_tabs bulk_exports reports
              output_folder)) rc err)"
proof (intro conjI impI)
  assume "Run command (Exited rc (Some out) (Some err)) \<in>
      set (fst (domain_crawl env domain export_tabs bulk_exports reports output_folder
                  business_name config)) \<and> rc \<noteq> 0"
  then have clean: "\<not> has_nul (domain_crawl_command domain export_tabs bulk_exports reports
      output_folder business_name config)"
    and run: "env_run env (domain_crawl_command domain export_tabs bulk_exports reports
      output_folder business_name config) = Exited rc (Some out) (Some err)"
    and nz: "rc \<noteq> 0"
    by (auto simp: domain_crawl_run_event)
  show "failed_response
      (snd (domain_crawl env domain export_tabs bulk_exports reports output_folder
              business_name config)) rc err"
    unfolding domain_crawl_failed [OF clean run nz] by (rule failed_responseI) simp_all
next
  assume "Run command (Exited rc (Some out) (Some err)) \<in>
      set (fst (post_crawl_export env crawl_file export_tabs bulk_exports reports
                  output_folder)) \<and> rc \<noteq> 0"
  then have made: "env_makedirs env (export_output_folder crawl_file output_folder) = None"
    and clean: "\<not> has_nul (post_crawl_export_command crawl_file export_tabs bulk_exports
      reports output_folder)"
    and run: "env_run env (post_crawl_export_command crawl_file export_tabs bulk_exports
      reports output_folder) = Exited rc (Some out) (Some err)"
    and nz: "rc \<noteq> 0"
    by (auto simp: post_crawl_export_run_event)
  show "failed_response
      (snd (post_crawl_export env crawl_file export_tabs bulk_exports reports
              output_folder)) rc err"
    unfolding post_crawl_export_failed [OF made clean run nz]
    by (rule failed_responseI) simp_all
qed

text \<open>
  The theorem where the crawler exits with code 3 and the error text \<^verbatim>\<open>boom\<close>, with the
  numeral of 3 and the dictionary of the crawl written out.
\<close>

theorem non_zero_exit_is_error_witness:
  "Run
     (domain_crawl_command ''example.com'' [] [] [] ''exports'' ''default_business_name''
        ''default.seospider'')
     (Exited 3 (Some ''out'') (Some ''boom'')) \<in>
     set (fst (domain_crawl (env_child (Exited 3 (Some ''out'') (Some ''boom'')))
                 ''example.com'' [] [] [] ''exports''
                 ''default_business_name'' ''default.seospider'')) \<and>
   Run
     (post_crawl_export_command ''/a/b/crawl.seospider'' [] [] [] ''out'')
     (Exited 3 (Some ''out'') (Some ''boom'')) \<in>
     set (fst (post_crawl_export (env_child (Exited 3 (Some ''out'') (Some ''boom'')))
                 ''/a/b/crawl.seospider'' [] [] [] ''out'')) \<and>
   failed_response
     (snd (domain_crawl (env_child (Exited 3 (Some ''out'') (Some ''boom'')))
             ''example.com'' [] [] [] ''exports''
             ''default_business_name'' ''default.seospider'')) 3 ''boom'' \<and>
   failed_response
     (snd (post_crawl_export (env_child (Exited 3 (Some ''out'') (Some ''boom'')))
             ''/a/b/crawl.seospider'' [] [] [] ''out''))
     3 ''boom'' \<and>
   str_int 3 = ''3'' \<and>
   snd (domain_crawl (env_child (Exited 3 (Some ''out'') (Some ''boom'')))
          ''example.com'' [] [] [] ''exports'' ''default_business_name'' ''default.seospider'') =
     Inr [(''status'', ''error''), (''domain'', ''example.com''),
          (''message'', ''Error running Screaming Frog for domain example.com. Return code: 3''),
          (''details'', ''boom'')]"
proof -
  let ?env = "env_child (Exited 3 (Some ''out'') (Some ''boom''))"
  have crawl_ran: "Run
      (domain_crawl_command ''example.com'' [] [] [] ''exports'' ''default_business_name''
         ''default.seospider'')
      (Exited 3 (Some ''out'') (Some ''boom'')) \<in>
      set (fst (domain_crawl ?env ''example.com'' [] [] [] ''exports''
                  ''default_business_name'' ''default.seospider''))"
    by (simp add: domain_crawl_run_event crawl_example_no_nul env_child_def)
  have export_ran: "Run
      (post_crawl_export_command ''/a/b/crawl.seospider'' [] [] [] ''out'')
      (Exited 3 (Some ''out'') (Some ''boom'')) \<in>
      set (fst (post_crawl_export ?env ''/a/b/crawl.seospider'' [] [] [] ''out''))"
    by (simp add: post_crawl_export_run_event export_example_no_nul export_folder_example
        env_child_def)
  have nz: "(3::int) \<noteq> 0"
    by simp
  from non_zero_exit_is_error [where env = ?env and rc = 3 and out = "''out''"
      and err = "''boom''" and domain = "''example.com''" and export_tabs = "[]"
      and bulk_exports = "[]" and reports = "[]" and output_folder = "''exports''"
      and business_name = "''default_business_name''" and config = "''default.seospider''"
      and command = "domain_crawl_command ''example.com'' [] [] [] ''exports''
         ''default_business_name'' ''default.seospider''"
      and crawl_file = "''/a/b/crawl.seospider''"]
    crawl_ran nz
  have first: "failed_response
     (snd (domain_crawl ?env ''example.com'' [] [] [] ''exports''
             ''default_business_name'' ''default.seospider'')) 3 ''boom''"
    by blast
  from non_zero_exit_is_error [where env = ?env and rc = 3 and out = "''out''"
      and err = "''boom''" and domain = "''example.com''" and export_tabs = "[]"
      and bulk_exports = "[]" and reports = "[]" and output_folder = "''out''"
      and business_name = "''default_business_name''" and config = "''default.seospider''"
      and command = "post_crawl_export_command ''/a/b/crawl.seospider'' [] [] [] ''out''"
      and crawl_file = "''/a/b/crawl.seospider''"]
    export_ran nz
  have second: "failed_response
     (snd (post_crawl_export ?env ''/a/b/crawl.seospider'' [] [] [] ''out''))
     3 ''boom''"
    by blast
  have numeral: "str_int 3 = ''3''"
    by (simp add: str_int_def str_nat.simps)
  have "snd (domain_crawl ?env ''example.com'' [] [] [] ''exports''
          ''default_business_name'' ''default.seospider'') =
     Inr [(''status'', ''error''), (''domain'', ''example.com''),
          (''message'', ''Error running Screaming Frog for domain '' @ ''example.com'' @
                        ''. Return code: '' @ str_int 3),
          (''details'', ''boom'')]"
    by (rule domain_crawl_failed [OF crawl_example_no_nul _ nz, where out = "''out''"])
       (simp add: env_child_def)
  then have dict: "snd (domain_crawl ?env ''example.com'' [] [] [] ''exports''
          ''default_business_name'' ''default.seospider'') =
     Inr [(''status'', ''error''), (''domain'', ''example.com''),
          (''message'', ''Error running Screaming Frog for domain example.com. Return code: 3''),
          (''details'', ''boom'')]"
    by (simp add: numeral)
  from crawl_ran export_ran first second numeral dict show ?thesis by (intro conjI)
qed

text \<open>
  The claim as first stated fails: the child of a crawl exits with code 3, its error
  stream cannot be decoded, and \<^verbatim>\<open>UnicodeDecodeError\<close> leaves \<^verbatim>\<open>domain_crawl\<close> instead of
  a dictionary.
\<close>

theorem non_zero_exit_undecodable_raises:
  "Run
     (domain_crawl_command ''example.com'' [] [] [] ''exports'' ''default_business_name''
        ''default.seospider'')
     (Exited 3 (Some ''out'') None) \<in>
     set (fst (domain_crawl (env_child (Exited 3 (Some ''out'') None))
                 ''example.com'' [] [] [] ''exports''
                 ''default_business_name'' ''default.seospider'')) \<and>
   snd (domain_crawl (env_child (Exited 3 (Some ''out'') None))
          ''example.com'' [] [] [] ''exports'' ''default_business_name'' ''default.seospider'') =
     Inl UnicodeDecodeError"
proof -
  let ?env = "env_child (Exited 3 (Some ''out'') None)"
  have run: "env_run ?env
      (domain_crawl_command ''example.com'' [] [] [] ''exports'' ''default_business_name''
         ''default.seospider'') = Exited 3 (Some ''out'') None"
    by (simp add: env_child_def)
  have "Run
     (domain_crawl_command ''example.com'' [] [] [] ''exports'' ''default_business_name''
        ''default.seospider'')
     (Exited 3 (Some ''out'') None) \<in>
     set (fst (domain_crawl ?env ''example.com'' [] [] [] ''exports''
                 ''default_business_name'' ''default.seospider''))"
    by (simp add: domain_crawl_run_event crawl_example_no_nul run)
  moreover have "snd (domain_crawl ?env ''example.com'' [] [] [] ''exports''
      ''default_business_name'' ''default.seospider'') = Inl UnicodeDecodeError"
    by (rule domain_crawl_undecodable [OF crawl_example_no_nul run]) simp
  ultimately show ?thesis by (rule conjI)
qed




text \<open>
  Claim C4, as amended. Whenever the child process of an invocation of \<^verbatim>\<open>domain_crawl\<close> or
  \<^verbatim>\<open>post_crawl_export\<close> exits with code zero and both captured streams can be decoded as
  text, the invocation returns a dictionary whose status is \<^verbatim>\<open>success\<close> and whose
  identifying key (\<^verbatim>\<open>domain\<close> for the crawl, \<^verbatim>\<open>crawl_file\<close> for the export) is bound to the
  caller's input, unmodified. A stream that cannot be decoded makes \<^verbatim>\<open>subprocess.run\<close>
  raise \<^verbatim>\<open>UnicodeDecodeError\<close>, which neither handler catches.
\<close>

theorem zero_exit_is_success:
  "(Run command (Exited 0 (Some out) (Some err)) \<in>
      set (fst (domain_crawl env domain export_tabs bulk_exports reports output_folder
                  business_name config)) \<longrightarrow>
    success_response
      (snd (domain_crawl env domain export_tabs bulk_exports reports output_folder
              business_name config)) ''domain'' domain) \<and>
   (Run command (Exited 0 (Some out) (Some err)) \<in>
      set (fst (post_crawl_export env crawl_file export_tabs bulk_exports reports
                  output_folder)) \<longrightarrow>
    success_response
      (snd (post_crawl_export env crawl_file export_tabs bulk_exports reports
              output_folder)) ''crawl_file'' crawl_file)"
proof (intro conjI impI)
  assume "Run command (Exited 0 (Some out) (Some err)) \<in>
      set (fst (domain_crawl env domain export_tabs bulk_exports reports output_folder
                  business_name config))"
  then have "\<not> has_nul (domain_crawl_command domain export_tabs bulk_exports reports
      output_folder business_name config)"
    and "env_run env (domain_crawl_command domain export_tabs bulk_exports reports
      output_folder business_name config) = Exited 0 (Some out) (Some err)"
    by (auto simp: domain_crawl_run_event)
  then show "success_response
      (snd (domain_crawl env domain export_tabs bulk_exports reports output_folder
              business_name config)) ''domain'' domain"
    by (simp add: domain_crawl_succeeded success_response_def)
next
  assume "Run command (Exited 0 (Some out) (Some err)) \<in>
      set (fst (post_crawl_export env crawl_file export_tabs bulk_exports reports
                  output_folder))"
  then have "env_makedirs env (export_output_folder crawl_file output_folder) = None"
    and "\<not> has_nul (post_crawl_export_command crawl_file export_tabs bulk_exports
      reports output_folder)"
    and "env_run env (post_crawl_export_command crawl_file export_tabs bulk_exports
      reports output_folder) = Exited 0 (Some out) (Some err)"
    by (auto simp: post_crawl_export_run_event)
  then show "success_response
      (snd (post_crawl_export env crawl_file export_tabs bulk_exports reports
              output_folder)) ''crawl_file'' crawl_file"
    by (simp add: post_crawl_export_succeeded success_response_def)
qed

text \<open>
  The theorem where the crawler exits with code 0, with the dictionary of the export
  written out.
\<close>

theorem zero_exit_is_success_witness:
  "Run
     (domain_crawl_command ''example.com'' [] [] [] ''exports'' ''default_business_name''
        ''default.seospider'')
     (Exited 0 (Some ''out'') (Some ''''))  \<in>
     set (fst (domain_crawl (env_child (Exited 0 (Some ''out'') (Some '''')))
                 ''example.com'' [] [] [] ''exports''
                 ''default_business_name'' ''default.seospider'')) \<and>
   Run
     (post_crawl_export_command ''/a/b/crawl.seospider'' [] [] [] ''out'')
     (Exited 0 (Some ''out'') (Some '''')) \<in>
     set (fst (post_crawl_export (env_child (Exited 0 (Some ''out'') (Some '''')))
                 ''/a/b/crawl.seospider'' [] [] [] ''out'')) \<and>
   success_response
     (snd (domain_crawl (env_child (Exited 0 (Some ''out'') (Some '''')))
             ''example.com'' [] [] [] ''exports''
             ''default_business_name'' ''default.seospider'')) ''domain'' ''example.com'' \<and>
   success_response
     (snd (post_crawl_export (env_child (Exited 0 (Some ''out'') (Some '''')))
             ''/a/b/crawl.seospider'' [] [] [] ''out''))
     ''crawl_file'' ''/a/b/crawl.seospider'' \<and>
   snd (post_crawl_export (env_child (Exited 0 (Some ''out'') (Some '''')))
          ''/a/b/crawl.seospider'' [] [] [] ''out'') =
     Inr [(''status'', ''success''), (''crawl_file'', ''/a/b/crawl.seospider''),
          (''message'', ''Data export completed.'')]"
proof -
  let ?env = "env_child (Exited 0 (Some ''out'') (Some ''''))"
  have crawl_ran: "Run
      (domain_crawl_command ''example.com'' [] [] [] ''exports'' ''default_business_name''
         ''default.seospider'')
      (Exited 0 (Some ''out'') (Some '''')) \<in>
      set (fst (domain_crawl ?env ''example.com'' [] [] [] ''exports''
                  ''default_business_name'' ''default.seospider''))"
    by (simp add: domain_crawl_run_event crawl_example_no_nul env_child_def)
  have export_ran: "Run
      (post_crawl_export_command ''/a/b/crawl.seospider'' [] [] [] ''out'')
      (Exited 0 (Some ''out'') (Some '''')) \<in>
      set (fst (post_crawl_export ?env ''/a/b/crawl.seospider'' [] [] [] ''out''))"
    by (simp add: post_crawl_export_run_event export_example_no_nul export_folder_example
        env_child_def)
  from zero_exit_is_success [where env = ?env and out = "''out''"
      and err = "''''" and domain = "''example.com''" and export_tabs = "[]"
      and bulk_exports = "[]" and reports = "[]" and output_folder = "''exports''"
      and business_name = "''default_business_name''" and config = "''default.seospider''"
      and command = "domain_crawl_command ''example.com'' [] [] [] ''exports''
         ''default_business_name'' ''default.seospider''"
      and crawl_file = "''/a/b/crawl.seospider''"]
    crawl_ran
  have first: "success_response
     (snd (domain_crawl ?env ''example.com'' [] [] [] ''exports''
             ''default_business_name'' ''default.seospider'')) ''domain'' ''example.com''"
    by blast
  from zero_exit_is_success [where env = ?env and out = "''out''"
      and err = "''''" and domain = "''example.com''" and export_tabs = "[]"
      and bulk_exports = "[]" and reports = "[]" and output_folder = "''out''"
      and business_name = "''default_business_name''" and config = "''default.seospider''"
      and command = "post_crawl_export_command ''/a/b/crawl.seospider'' [] [] [] ''out''"
      and crawl_file = "''/a/b/crawl.seospider''"]
    export_ran
  have second: "success_response
     (snd (post_crawl_export ?env ''/a/b/crawl.seospider'' [] [] [] ''out''))
     ''crawl_file'' ''/a/b/crawl.seospider''"
    by blast
  have dict: "snd (post_crawl_export ?env ''/a/b/crawl.seospider'' [] [] [] ''out'') =
     Inr [(''status'', ''success''), (''crawl_file'', ''/a/b/crawl.seospider''),
          (''message'', ''Data export completed.'')]"
    by (rule post_crawl_export_succeeded [OF _ export_example_no_nul,
          where out = "''out''" and err = "''''"])
       (simp_all add: env_child_def export_folder_example)
  from crawl_ran export_ran first second dict show ?thesis by (intro conjI)
qed

text \<open>
  The claim as first stated fails: the child of an export exits with code 0, its output
  stream cannot be decoded, and \<^verbatim>\<open>UnicodeDecodeError\<close> leaves \<^verbatim>\<open>post_crawl_export\<close>
  instead of a dictionary.
\<close>

theorem zero_exit_undecodable_raises:
  "Run
     (post_crawl_export_command ''/a/b/crawl.seospider'' [] [] [] ''out'')
     (Exited 0 None (Some '''')) \<in>
     set (fst (post_crawl_export (env_child (Exited 0 None (Some '''')))
                 ''/a/b/crawl.seospider'' [] [] [] ''out'')) \<and>
   snd (post_crawl_export (env_child (Exited 0 None (Some '''')))
          ''/a/b/crawl.seospider'' [] [] [] ''out'') = Inl UnicodeDecodeError"
proof -
  let ?env = "env_child (Exited 0 None (Some ''''))"
  have made: "env_makedirs ?env (export_output_folder ''/a/b/crawl.seospider'' ''out'') = None"
    by (simp add: env_child_def export_folder_example)
  have run: "env_run ?env (post_crawl_export_command ''/a/b/crawl.seospider'' [] [] [] ''out'') =
      Exited 0 None (Some '''')"
    by (simp add: env_child_def)
  have "Run
     (post_crawl_export_command ''/a/b/crawl.seospider'' [] [] [] ''out'')
     (Exited 0 None (Some '''')) \<in>
     set (fst (post_crawl_export ?env ''/a/b/crawl.seospider'' [] [] [] ''out''))"
    by (simp add: post_crawl_export_run_event export_example_no_nul made run)
  moreover have "snd (post_crawl_export ?env ''/a/b/crawl.seospider'' [] [] [] ''out'') =
      Inl UnicodeDecodeError"
    by (rule post_crawl_export_undecodable [OF made export_example_no_nul run]) simp
  ultimately show ?thesis by (rule conjI)
qed


section \<open>The database listing\<close>









end
